theory Spec2Isabelle
  imports Main "HOL-Library.Sublist" "HOL-Library.Multiset"
begin

section \<open>Data model\<close>

text \<open>
  JavaScript values as far as the middleware and the controllers inspect them. A query
  filter and a creation payload are plain objects: finite maps from property names to
  values. The spread \<open>{...o, k: v}\<close> is the map update \<open>o(k \<mapsto> v)\<close>.
\<close>

datatype jsval =
    JUndefined
  | JNull
  | JBool bool
  | JNumber int
  | JString string
  | JArray "jsval list"
  | JObject "(string \<times> jsval) list"

type_synonym jsobject = "string \<rightharpoonup> jsval"

text \<open>
  The principal attached to the request as \<open>req.user\<close>: the fields of the User document
  (or of the object built by \<open>authenticateSuperAdmin\<close>) that the code reads.
\<close>

record principal =
  u_id :: string
  u_email :: string
  u_role :: string
  u_is_active :: bool
  u_tenant_id :: "string option"

text \<open>
  \<open>AuthRequest\<close> (types/express.ts): every field is optional in the source, hence
  \<open>option\<close>. \<open>query_global\<close> is \<open>req.query.global\<close>.
\<close>

record auth_request =
  user :: "principal option"
  tenant_id :: "string option"
  clinic_id :: "string option"
  isSuperAdmin :: "bool option"
  query_global :: "string option"

datatype error = TenantContextRequired

text \<open>\<open>req.user?.role\<close>: undefined when no principal is attached.\<close>

definition user_role :: "auth_request \<Rightarrow> string option" where
  "user_role req = map_option u_role (user req)"

text \<open>
  JavaScript truthiness of an optional string: \<open>undefined\<close> and the empty string are
  falsy, every other string is truthy.
\<close>

definition truthy :: "string option \<Rightarrow> bool" where
  "truthy s = (case s of None \<Rightarrow> False | Some v \<Rightarrow> v \<noteq> [])"

section \<open>Tenant scope enforcer (middleware/auth.ts)\<close>

definition getTenantScopedFilter :: "auth_request \<Rightarrow> jsobject \<Rightarrow> error + jsobject" where
  "getTenantScopedFilter req additionalFilter =
     (if user_role req = Some ''super_admin'' then Inr additionalFilter
      else if \<not> truthy (tenant_id req) then Inl TenantContextRequired
      else Inr (additionalFilter(''tenant_id'' \<mapsto> JString (the (tenant_id req)))))"

definition canAccessTenant :: "auth_request \<Rightarrow> string \<Rightarrow> bool" where
  "canAccessTenant req targetTenantId =
     (if user_role req = Some ''super_admin'' then True
      else tenant_id req = Some targetTenantId)"

text \<open>
  A middleware either ends the request with a response (its HTTP status) or calls
  \<open>next()\<close> with the request as it left it.
\<close>

datatype mw_result = Respond nat | Next auth_request

text \<open>
  \<open>getResourceTenantId\<close> is the caller's asynchronous lookup; \<open>None\<close> is a rejected
  promise, which the \<open>catch\<close> turns into 500.
\<close>

definition validateTenantAccess ::
    "(auth_request \<Rightarrow> string option) \<Rightarrow> auth_request \<Rightarrow> mw_result" where
  "validateTenantAccess getResourceTenantId req =
     (if user_role req = Some ''super_admin'' then Next req
      else case getResourceTenantId req of
          None \<Rightarrow> Respond 500
        | Some resourceTenantId \<Rightarrow>
            if \<not> canAccessTenant req resourceTenantId then Respond 403 else Next req)"

definition addTenantToData :: "auth_request \<Rightarrow> jsobject \<Rightarrow> error + jsobject" where
  "addTenantToData req data =
     (if user_role req = Some ''super_admin'' \<and> \<not> truthy (tenant_id req) then Inr data
      else if \<not> truthy (tenant_id req) then Inl TenantContextRequired
      else Inr (data(''tenant_id'' \<mapsto> JString (the (tenant_id req)))))"


text \<open>
  \<open>UserClinicController.getUserClinics\<close> builds its filter itself, not through
  \<open>getTenantScopedFilter\<close>: 401 when no principal id is attached, otherwise the filter
  for \<open>UserClinic.find\<close>.
\<close>

definition getUserClinics_filter :: "auth_request \<Rightarrow> nat + jsobject" where
  "getUserClinics_filter req =
     (case user req of
        None \<Rightarrow> Inl 401
      | Some u \<Rightarrow>
          if u_id u = [] then Inl 401
          else
            (let isSuperAdmin = (u_role u = ''super_admin'');
                 wantsGlobalAccess = (query_global req = Some ''true'' \<and> isSuperAdmin);
                 userClinicFilter = [''user_id'' \<mapsto> JString (u_id u), ''is_active'' \<mapsto> JBool True]
             in if \<not> wantsGlobalAccess \<and> truthy (tenant_id req)
                then Inr (userClinicFilter(''tenant_id'' \<mapsto> JString (the (tenant_id req))))
                else Inr userClinicFilter))"

section \<open>Token claims and authentication (middleware/auth.ts, middleware/superAdminAuth.ts)\<close>

text \<open>
  The decoded claims of a session token: \<open>JWTPayload\<close> of middleware/auth.ts
  (\<open>id, email, role, tenant_id?, clinic_id?, clinic_role?\<close>) and
  \<open>SuperAdminJWTPayload\<close> (\<open>id, email, role, type\<close>) in one record; a field a token
  does not carry is \<open>None\<close> (\<open>undefined\<close> when read).
\<close>

record jwt_payload =
  jwt_id :: string
  jwt_email :: string
  jwt_role :: string
  jwt_type :: "string option"
  jwt_tenant_id :: "string option"
  jwt_clinic_id :: "string option"
  jwt_clinic_role :: "string option"

text \<open>
  \<open>jwt.verify\<close> is the supplied signature primitive: it returns the claims or throws.
  The middleware take it as a parameter \<open>verify\<close>.
\<close>

datatype jwt_verify = Decoded jwt_payload | TokenExpiredError | JsonWebTokenError | OtherError

text \<open>\<open>String.prototype.replace\<close> with a string pattern: the first occurrence only.\<close>

fun replace :: "string \<Rightarrow> string \<Rightarrow> string \<Rightarrow> string" where
  "replace pat rep [] = (if pat = [] then rep else [])"
| "replace pat rep (c # cs) =
     (if prefix pat (c # cs) then rep @ drop (length pat) (c # cs)
      else c # replace pat rep cs)"

text \<open>The token payloads the controllers mint (the objects passed to \<open>jwt.sign\<close>).\<close>

definition selectClinicTokenPayload ::
    "principal \<Rightarrow> string option \<Rightarrow> string \<Rightarrow> string option \<Rightarrow> jwt_payload" where
  "selectClinicTokenPayload u clinic_tenant_id cid primaryRole_name =
     \<lparr>jwt_id = u_id u, jwt_email = u_email u, jwt_role = u_role u, jwt_type = None,
      jwt_tenant_id = clinic_tenant_id, jwt_clinic_id = Some cid,
      jwt_clinic_role = Some (if truthy primaryRole_name then the primaryRole_name
                              else ''staff'')\<rparr>"

definition clearClinicTokenPayload :: "auth_request \<Rightarrow> principal \<Rightarrow> jwt_payload" where
  "clearClinicTokenPayload req u =
     \<lparr>jwt_id = u_id u, jwt_email = u_email u, jwt_role = u_role u, jwt_type = None,
      jwt_tenant_id = tenant_id req, jwt_clinic_id = None, jwt_clinic_role = None\<rparr>"

subsection \<open>The SuperAdmin document and its lock state (models/SuperAdmin.ts)\<close>

text \<open>Times are milliseconds since the epoch, as \<open>Date.now()\<close> gives them.\<close>

record super_admin =
  sa_id :: string
  sa_email :: string
  sa_password_hash :: string
  sa_is_active :: bool
  sa_last_login :: "int option"
  sa_login_attempts :: int
  sa_locked_until :: "int option"

definition superAdminTokenPayload :: "super_admin \<Rightarrow> jwt_payload" where
  "superAdminTokenPayload superAdmin =
     \<lparr>jwt_id = sa_id superAdmin, jwt_email = sa_email superAdmin, jwt_role = ''super_admin'',
      jwt_type = Some ''super_admin'', jwt_tenant_id = None, jwt_clinic_id = None,
      jwt_clinic_role = None\<rparr>"

definition isLocked :: "int \<Rightarrow> super_admin \<Rightarrow> bool" where
  "isLocked now this = (case sa_locked_until this of None \<Rightarrow> False | Some t \<Rightarrow> t > now)"

text \<open>
  The update document handed to \<open>this.updateOne\<close>. A top-level key \<open>k: v\<close> is a
  \<open>$set\<close> of \<open>k\<close>; \<open>$inc\<close> adds. A key the document does not hold leaves the stored
  field as it is, and \<open>delete updates.k\<close> takes the key \<open>k\<close> out of the document.
\<close>

record sa_update =
  set_login_attempts :: "int option"
  inc_login_attempts :: "int option"
  set_last_login :: "int option"
  set_locked_until :: "int option"

definition no_update :: sa_update where
  "no_update = \<lparr>set_login_attempts = None, inc_login_attempts = None,
                 set_last_login = None, set_locked_until = None\<rparr>"

definition updateOne :: "sa_update \<Rightarrow> super_admin \<Rightarrow> super_admin" where
  "updateOne updates stored =
     stored\<lparr>sa_login_attempts :=
              (case set_login_attempts updates of None \<Rightarrow> sa_login_attempts stored | Some v \<Rightarrow> v)
              + (case inc_login_attempts updates of None \<Rightarrow> 0 | Some d \<Rightarrow> d),
            sa_last_login :=
              (case set_last_login updates of None \<Rightarrow> sa_last_login stored | Some t \<Rightarrow> Some t),
            sa_locked_until :=
              (case set_locked_until updates of None \<Rightarrow> sa_locked_until stored
               | Some t \<Rightarrow> Some t)\<rparr>"

text \<open>
  \<open>incrementLoginAttempts\<close> and \<open>resetLoginAttempts\<close> build the update from the loaded
  document \<open>this\<close>; the result is the function \<open>updateOne\<close> applies to the stored one.
\<close>

definition incrementLoginAttempts :: "int \<Rightarrow> super_admin \<Rightarrow> super_admin \<Rightarrow> super_admin" where
  "incrementLoginAttempts now this =
     (if (case sa_locked_until this of None \<Rightarrow> False | Some t \<Rightarrow> t < now) then
        (let updates = no_update\<lparr>set_login_attempts := Some 1\<rparr>;
             updates = updates\<lparr>set_locked_until := None\<rparr>
         in updateOne updates)
      else
        (let updates = no_update\<lparr>inc_login_attempts := Some 1\<rparr>;
             updates = (if sa_login_attempts this + 1 \<ge> 5 \<and> \<not> isLocked now this
                        then updates\<lparr>set_locked_until := Some (now + 2 * 60 * 60 * 1000)\<rparr>
                        else updates)
         in updateOne updates))"

definition resetLoginAttempts :: "int \<Rightarrow> super_admin \<Rightarrow> super_admin \<Rightarrow> super_admin" where
  "resetLoginAttempts now this =
     (let updates = no_update\<lparr>set_login_attempts := Some 0, set_last_login := Some now\<rparr>;
          updates = (if sa_locked_until this \<noteq> None then updates\<lparr>set_locked_until := None\<rparr>
                     else updates)
      in updateOne updates)"

subsection \<open>Collections\<close>

text \<open>
  A collection is the list of its documents; \<open>_id\<close> is unique in it. Letters are ASCII:
  \<open>toLowerCase\<close> maps \<open>A\<close>..\<open>Z\<close> to \<open>a\<close>..\<open>z\<close> and leaves every other character.
\<close>

text \<open>\<open>String.prototype.trim\<close> on ASCII: blank, tab, line feed, VT, FF and CR.\<close>

definition is_space :: "char \<Rightarrow> bool" where
  "is_space c = (let n = (of_char c :: nat) in n = 32 \<or> (9 \<le> n \<and> n \<le> 13))"

definition trim :: "string \<Rightarrow> string" where
  "trim s = rev (dropWhile is_space (rev (dropWhile is_space s)))"

definition toLowerCase_char :: "char \<Rightarrow> char" where
  "toLowerCase_char c =
     (let n = (of_char c :: nat) in if 65 \<le> n \<and> n \<le> 90 then char_of (n + 32) else c)"

definition toLowerCase :: "string \<Rightarrow> string" where
  "toLowerCase s = map toLowerCase_char s"

definition findUserById :: "principal list \<Rightarrow> string \<Rightarrow> principal option" where
  "findUserById users i = find (\<lambda>u. u_id u = i) users"

definition findSuperAdminById :: "super_admin list \<Rightarrow> string \<Rightarrow> super_admin option" where
  "findSuperAdminById admins i = find (\<lambda>s. sa_id s = i) admins"

text \<open>
  A query filter on a string path of a schema goes through the path's setters: the
  value \<open>email.toLowerCase()\<close> is trimmed (\<open>trim: true\<close>) before it is compared.
\<close>

definition findActiveByEmail :: "super_admin list \<Rightarrow> string \<Rightarrow> super_admin option" where
  "findActiveByEmail admins email =
     find (\<lambda>s. sa_email s = trim (toLowerCase email) \<and> sa_is_active s) admins"

fun updateOneById ::
    "string \<Rightarrow> (super_admin \<Rightarrow> super_admin) \<Rightarrow> super_admin list \<Rightarrow> super_admin list" where
  "updateOneById i f [] = []"
| "updateOneById i f (s # ss) =
     (if sa_id s = i then f s # ss else s # updateOneById i f ss)"

subsection \<open>The middleware\<close>

text \<open>
  \<open>authorization\<close> is \<open>req.header('Authorization')\<close>. Ids are taken to be well-formed
  ObjectId strings, so \<open>findById\<close> does not throw a cast error.
\<close>

definition authenticate ::
    "(string \<Rightarrow> jwt_verify) \<Rightarrow> principal list \<Rightarrow> string option \<Rightarrow> auth_request \<Rightarrow> mw_result" where
  "authenticate verify users authorization req =
     (let token = map_option (replace ''Bearer '' '''') authorization in
      if \<not> truthy token then Respond 401
      else case verify (the token) of
          Decoded decoded \<Rightarrow>
            (case findUserById users (jwt_id decoded) of
                None \<Rightarrow> Respond 401
              | Some u \<Rightarrow>
                  if \<not> u_is_active u then Respond 401
                  else Next (req\<lparr>user := Some u,
                                tenant_id := (if truthy (jwt_tenant_id decoded)
                                              then jwt_tenant_id decoded else u_tenant_id u),
                                clinic_id := (if truthy (jwt_clinic_id decoded)
                                              then jwt_clinic_id decoded else clinic_id req)\<rparr>))
        | _ \<Rightarrow> Respond 401)"

definition authorize :: "string list \<Rightarrow> auth_request \<Rightarrow> mw_result" where
  "authorize roles req =
     (case user req of
        None \<Rightarrow> Respond 401
      | Some u \<Rightarrow>
          if u_role u = ''super_admin'' then Next req
          else if u_role u \<notin> set roles then Respond 403
          else Next req)"

definition authenticateSuperAdmin ::
    "(string \<Rightarrow> jwt_verify) \<Rightarrow> super_admin list \<Rightarrow> int \<Rightarrow> string option \<Rightarrow> auth_request
      \<Rightarrow> mw_result" where
  "authenticateSuperAdmin verify admins now authorization req =
     (let token = map_option (replace ''Bearer '' '''') authorization in
      if \<not> truthy token then Respond 401
      else case verify (the token) of
          Decoded decoded \<Rightarrow>
            if jwt_type decoded \<noteq> Some ''super_admin'' \<or> jwt_role decoded \<noteq> ''super_admin''
            then Respond 401
            else (case findSuperAdminById admins (jwt_id decoded) of
                None \<Rightarrow> Respond 401
              | Some superAdmin \<Rightarrow>
                  if \<not> sa_is_active superAdmin then Respond 401
                  else if isLocked now superAdmin then Respond 423
                  else Next (req\<lparr>user := Some \<lparr>u_id = sa_id superAdmin,
                                                  u_email = sa_email superAdmin,
                                                  u_role = ''super_admin'',
                                                  u_is_active = sa_is_active superAdmin,
                                                  u_tenant_id = None\<rparr>,
                                isSuperAdmin := Some True\<rparr>))
        | TokenExpiredError \<Rightarrow> Respond 401
        | JsonWebTokenError \<Rightarrow> Respond 401
        | OtherError \<Rightarrow> Respond 500)"

subsection \<open>Super-admin login (SuperAdminAuthController.login)\<close>

text \<open>
  \<open>bcrypt_compare\<close> is the supplied credential primitive. The result is the response's
  status, the claims of the token it carries, and the SuperAdmin collection afterwards.
\<close>

definition login ::
    "(string \<Rightarrow> string \<Rightarrow> bool) \<Rightarrow> int \<Rightarrow> super_admin list \<Rightarrow> bool \<Rightarrow> string \<Rightarrow> string
      \<Rightarrow> nat \<times> jwt_payload option \<times> super_admin list" where
  "login bcrypt_compare now admins errors_isEmpty email password =
     (if \<not> errors_isEmpty then (400, None, admins)
      else case findActiveByEmail admins email of
          None \<Rightarrow> (401, None, admins)
        | Some superAdmin \<Rightarrow>
            if isLocked now superAdmin then (423, None, admins)
            else if \<not> bcrypt_compare password (sa_password_hash superAdmin) then
              (401, None,
               updateOneById (sa_id superAdmin) (incrementLoginAttempts now superAdmin) admins)
            else
              (200, Some (superAdminTokenPayload superAdmin),
               updateOneById (sa_id superAdmin) (resetLoginAttempts now superAdmin) admins))"

section \<open>Role-based filters and the patient controller\<close>

text \<open>JavaScript truthiness of a property read: a missing property is \<open>undefined\<close>.\<close>

definition js_truthy :: "jsval option \<Rightarrow> bool" where
  "js_truthy v =
     (case v of
        None \<Rightarrow> False
      | Some JUndefined \<Rightarrow> False
      | Some JNull \<Rightarrow> False
      | Some (JBool b) \<Rightarrow> b
      | Some (JNumber n) \<Rightarrow> n \<noteq> 0
      | Some (JString s) \<Rightarrow> s \<noteq> []
      | Some (JArray _) \<Rightarrow> True
      | Some (JObject _) \<Rightarrow> True)"

datatype entity_type = Appointment | Prescription | Patient | Odontogram

definition getRoleBasedFilter :: "principal \<Rightarrow> entity_type \<Rightarrow> jsobject" where
  "getRoleBasedFilter u entityType =
     (if u_role u = ''super_admin'' \<or> u_role u = ''admin'' \<or> u_role u = ''receptionist''
         \<or> u_role u = ''staff'' then Map.empty
      else if u_role u = ''doctor'' then
        (if entityType = Appointment \<or> entityType = Prescription \<or> entityType = Odontogram
         then [''doctor_id'' \<mapsto> JString (u_id u)]
         else if entityType = Patient
         then [''_requiresDoctorPatientFilter'' \<mapsto> JBool True, ''_doctorId'' \<mapsto> JString (u_id u)]
         else Map.empty)
      else if u_role u = ''nurse'' then
        (if entityType = Appointment then [''nurse_id'' \<mapsto> JString (u_id u)]
         else if entityType = Patient
         then [''_requiresNursePatientFilter'' \<mapsto> JBool True, ''_nurseId'' \<mapsto> JString (u_id u)]
         else if entityType = Prescription
         then [''_requiresNursePrescriptionFilter'' \<mapsto> JBool True,
               ''_nurseId'' \<mapsto> JString (u_id u)]
         else Map.empty)
      else Map.empty)"

text \<open>
  The documents, with the fields the patient controller's queries name. The tenant of an
  appointment or a prescription is a required field of its schema.
\<close>

record patient =
  p_id :: string
  p_tenant_id :: "string option"
  p_clinic_id :: "string option"
  p_created_at :: int

record appointment =
  a_tenant_id :: string
  a_patient_id :: string
  a_doctor_id :: string
  a_nurse_id :: "string option"

record prescription =
  rx_tenant_id :: string
  rx_patient_id :: string
  rx_doctor_id :: string

record clinic_db =
  patients :: "patient list"
  appointments :: "appointment list"
  prescriptions :: "prescription list"

text \<open>
  An equality condition of a query filter against a field: no condition matches every
  document, a string matches the field holding it, and \<open>undefined\<close> (sent as null)
  matches the field that is not set.
\<close>

definition field_matches :: "jsval option \<Rightarrow> string option \<Rightarrow> bool" where
  "field_matches cond field =
     (case cond of
        None \<Rightarrow> True
      | Some (JString s) \<Rightarrow> field = Some s
      | Some JUndefined \<Rightarrow> field = None
      | Some JNull \<Rightarrow> field = None
      | Some _ \<Rightarrow> False)"

definition patient_matches :: "jsobject \<Rightarrow> patient \<Rightarrow> bool" where
  "patient_matches filter_obj p =
     (field_matches (filter_obj ''_id'') (Some (p_id p))
      \<and> field_matches (filter_obj ''clinic_id'') (p_clinic_id p)
      \<and> field_matches (filter_obj ''tenant_id'') (p_tenant_id p))"

definition opt_string :: "string option \<Rightarrow> jsval" where
  "opt_string s = (case s of None \<Rightarrow> JUndefined | Some v \<Rightarrow> JString v)"

text \<open>
  \<open>getPatientById\<close>: the status of the response and the patient it carries. The
  \<open>last_visit\<close> bookkeeping after the patient is found changes neither.
\<close>

definition getPatientById :: "clinic_db \<Rightarrow> auth_request \<Rightarrow> string \<Rightarrow> nat \<times> patient option" where
  "getPatientById db req pid =
     (let hasPermission =
        (if user_role req = Some ''super_admin'' \<or> user_role req = Some ''admin'' then True
         else if user_role req = Some ''doctor'' then
           (let appointmentExists =
                  list_ex (\<lambda>a. tenant_id req = Some (a_tenant_id a) \<and> a_patient_id a = pid
                              \<and> a_doctor_id a = u_id (the (user req))) (appointments db);
                prescriptionExists =
                  list_ex (\<lambda>r. tenant_id req = Some (rx_tenant_id r) \<and> rx_patient_id r = pid
                              \<and> rx_doctor_id r = u_id (the (user req))) (prescriptions db)
            in appointmentExists \<or> prescriptionExists)
         else if user_role req = Some ''nurse'' then
           list_ex (\<lambda>a. tenant_id req = Some (a_tenant_id a) \<and> a_patient_id a = pid
                       \<and> a_nurse_id a = Some (u_id (the (user req)))) (appointments db)
         else True)
      in if \<not> hasPermission then (403, None)
         else case getTenantScopedFilter req
                     [''_id'' \<mapsto> JString pid, ''clinic_id'' \<mapsto> opt_string (clinic_id req)] of
             Inl _ \<Rightarrow> (400, None)
           | Inr patientFilter \<Rightarrow>
               (case find (patient_matches patientFilter) (patients db) of
                  None \<Rightarrow> (404, None)
                | Some p \<Rightarrow> (200, Some p)))"

text \<open>
  \<open>getAllPatients\<close>: status, the page of patients and the total. \<open>query_page\<close> and
  \<open>query_limit\<close> are \<open>parseInt\<close> of the query's \<open>page\<close> and \<open>limit\<close> (\<open>None\<close> for
  NaN); \<open>query_match\<close> is the query's search and gender condition as MongoDB evaluates
  it. A negative skip is refused by the database, a negative limit counts as its
  absolute value.
\<close>

definition getAllPatients ::
    "clinic_db \<Rightarrow> auth_request \<Rightarrow> int option \<Rightarrow> int option \<Rightarrow> (patient \<Rightarrow> bool)
      \<Rightarrow> nat \<times> patient list \<times> nat" where
  "getAllPatients db req query_page query_limit query_match =
     (let page = (case query_page of None \<Rightarrow> 1 | Some n \<Rightarrow> if n = 0 then 1 else n);
          limit = (case query_limit of None \<Rightarrow> 10 | Some n \<Rightarrow> if n = 0 then 10 else n);
          skip = (page - 1) * limit
      in case getTenantScopedFilter req [''clinic_id'' \<mapsto> opt_string (clinic_id req)] of
          Inl _ \<Rightarrow> (400, [], 0)
        | Inr filter_obj \<Rightarrow>
            (case user req of
               None \<Rightarrow> (500, [], 0)
             | Some u \<Rightarrow>
                 (let roleFilter = getRoleBasedFilter u Patient;
                      find_page = (\<lambda>matching.
                        if skip < 0 then (500, [], 0)
                        else (200,
                              take (nat \<bar>limit\<bar>)
                                (drop (nat skip) (rev (sort_key p_created_at matching))),
                              length matching));
                      matching = filter (\<lambda>p. patient_matches filter_obj p \<and> query_match p)
                                   (patients db)
                  in if js_truthy (roleFilter ''_requiresDoctorPatientFilter'')
                        \<and> u_role u = ''doctor''
                     then find_page matching
                     else if js_truthy (roleFilter ''_requiresNursePatientFilter'')
                        \<and> u_role u = ''nurse''
                     then
                       (let nurseId = (case roleFilter ''_nurseId'' of
                                         None \<Rightarrow> JUndefined | Some v \<Rightarrow> v);
                            appointmentPatients =
                              remdups (map a_patient_id
                                (filter (\<lambda>a. field_matches (Some nurseId) (a_nurse_id a))
                                   (appointments db)))
                        in if length appointmentPatients = 0 then (200, [], 0)
                           else find_page
                                  (filter (\<lambda>p. p_id p \<in> set appointmentPatients) matching))
                     else find_page matching)))"

section \<open>Tenants (models/Tenant.ts, controllers/super-admin/TenantController.ts)\<close>

text \<open>
  The Tenant document without \<open>phone\<close> and \<open>logo_url\<close>, which no check reads, and the
  body of a creation request after the route's validation (\<open>name\<close>, \<open>slug\<close> and
  \<open>email\<close> are strings then).
\<close>

record tenant =
  t_id :: string
  t_name :: string
  t_slug :: string
  t_email :: string
  t_subdomain :: "string option"
  t_status :: string
  t_created_by :: "string option"
  t_deleted_at :: "int option"

record tenant_body =
  b_name :: string
  b_slug :: string
  b_email :: string
  b_subdomain :: "string option"
  b_status :: "string option"

text \<open>The schema's validators. \<open>/^[a-z0-9-]+$/\<close> is a non-empty string of such characters.\<close>

definition slug_char :: "char \<Rightarrow> bool" where
  "slug_char c =
     (let n = (of_char c :: nat) in (97 \<le> n \<and> n \<le> 122) \<or> (48 \<le> n \<and> n \<le> 57) \<or> n = 45)"

definition slug_valid :: "string \<Rightarrow> bool" where
  "slug_valid s = (s \<noteq> [] \<and> list_all slug_char s \<and> length s \<le> 50)"

definition subdomain_valid :: "string option \<Rightarrow> bool" where
  "subdomain_valid s =
     (case s of None \<Rightarrow> True | Some v \<Rightarrow> v = [] \<or> (list_all slug_char v \<and> length v \<le> 50))"

text \<open>\<open>email_valid\<close> stands for the schema's regular expression for e-mail addresses.\<close>

definition validateTenant :: "(string \<Rightarrow> bool) \<Rightarrow> tenant \<Rightarrow> bool" where
  "validateTenant email_valid doc =
     (t_name doc \<noteq> [] \<and> length (t_name doc) \<le> 100
      \<and> slug_valid (t_slug doc)
      \<and> t_email doc \<noteq> [] \<and> email_valid (t_email doc) \<and> length (t_email doc) \<le> 255
      \<and> subdomain_valid (t_subdomain doc)
      \<and> t_status doc \<in> set [''active'', ''inactive'', ''suspended'', ''pending'']
      \<and> t_created_by doc \<noteq> None)"

datatype save_error = ValidationError | HookError | DuplicateKeyError

text \<open>
  \<open>save\<close> of a new document: the validators, then the two \<open>pre('save')\<close> hooks
  (subdomain, then slug, each among the tenants that are not deleted), then the insert.
  The schema declares \<open>slug\<close> as \<open>unique: true\<close> and \<open>subdomain\<close> as
  \<open>unique: true, sparse: true\<close>: MongoDB keeps a unique index on each, over every
  document of the collection that has the field, deleted or not, and refuses the insert
  of a second document with the same value (error E11000).
\<close>

definition save :: "(string \<Rightarrow> bool) \<Rightarrow> tenant list \<Rightarrow> tenant \<Rightarrow> save_error + tenant list" where
  "save email_valid db doc =
     (if \<not> validateTenant email_valid doc then Inl ValidationError
      else if truthy (t_subdomain doc)
          \<and> list_ex (\<lambda>t. t_subdomain t = t_subdomain doc \<and> t_id t \<noteq> t_id doc
                         \<and> t_deleted_at t = None) db
        then Inl HookError
      else if list_ex (\<lambda>t. t_slug t = t_slug doc \<and> t_id t \<noteq> t_id doc
                         \<and> t_deleted_at t = None) db
        then Inl HookError
      else if list_ex (\<lambda>t. t_slug t = t_slug doc) db
          \<or> (t_subdomain doc \<noteq> None \<and> list_ex (\<lambda>t. t_subdomain t = t_subdomain doc) db)
        then Inl DuplicateKeyError
      else Inr (db @ [doc]))"

text \<open>
  \<open>createTenant\<close>: the status of the response and the collection afterwards.
  \<open>errors_isEmpty\<close> is \<open>validationResult(req).isEmpty()\<close> and \<open>new_id\<close> the fresh
  \<open>_id\<close> of the new document. The filters of the two \<open>findOne\<close> checks go through
  the schema's setters, which trim the value. Only a \<open>ValidationError\<close> is answered 400
  by the \<open>catch\<close>; every other error is answered 500.
\<close>

definition createTenant ::
    "(string \<Rightarrow> bool) \<Rightarrow> string \<Rightarrow> tenant list \<Rightarrow> auth_request \<Rightarrow> bool \<Rightarrow> tenant_body
      \<Rightarrow> nat \<times> tenant list" where
  "createTenant email_valid new_id db req errors_isEmpty body =
     (if \<not> errors_isEmpty then (400, db)
      else if list_ex (\<lambda>t. t_slug t = trim (toLowerCase (b_slug body))
                         \<and> t_deleted_at t = None) db
        then (409, db)
      else if truthy (b_subdomain body)
          \<and> list_ex (\<lambda>t. t_subdomain t = Some (trim (toLowerCase (the (b_subdomain body))))
                         \<and> t_deleted_at t = None) db
        then (409, db)
      else
        (let doc = \<lparr>t_id = new_id,
                    t_name = trim (b_name body),
                    t_slug = trim (toLowerCase (b_slug body)),
                    t_email = trim (toLowerCase (b_email body)),
                    t_subdomain = map_option (\<lambda>s. trim (toLowerCase s)) (b_subdomain body),
                    t_status = (if truthy (b_status body) then the (b_status body)
                                else ''pending''),
                    t_created_by = map_option u_id (user req),
                    t_deleted_at = None\<rparr>
         in case save email_valid db doc of
              Inl ValidationError \<Rightarrow> (400, db)
            | Inl _ \<Rightarrow> (500, db)
            | Inr db' \<Rightarrow> (201, db')))"

text \<open>\<open>deleteTenant\<close>: the soft delete sets \<open>deleted_at\<close> and leaves the slug as it is.\<close>

fun softDelete :: "int \<Rightarrow> string \<Rightarrow> tenant list \<Rightarrow> tenant list option" where
  "softDelete now i [] = None"
| "softDelete now i (t # ts) =
     (if t_id t = i \<and> t_deleted_at t = None then Some (t\<lparr>t_deleted_at := Some now\<rparr> # ts)
      else map_option ((#) t) (softDelete now i ts))"

definition deleteTenant :: "int \<Rightarrow> tenant list \<Rightarrow> string \<Rightarrow> nat \<times> tenant list" where
  "deleteTenant now db i =
     (case softDelete now i db of None \<Rightarrow> (404, db) | Some db' \<Rightarrow> (200, db'))"

text \<open>
  \<open>updateTenant\<close> up to its conflict checks: the status it answers before it writes,
  \<open>None\<close> when it goes on to \<open>findByIdAndUpdate\<close>.
\<close>

definition updateTenant_checks ::
    "tenant list \<Rightarrow> bool \<Rightarrow> string \<Rightarrow> string option \<Rightarrow> string option \<Rightarrow> nat option" where
  "updateTenant_checks db errors_isEmpty i slug subdomain =
     (if \<not> errors_isEmpty then Some 400
      else case find (\<lambda>t. t_id t = i \<and> t_deleted_at t = None) db of
          None \<Rightarrow> Some 404
        | Some existingTenant \<Rightarrow>
            if truthy slug \<and> the slug \<noteq> t_slug existingTenant
                \<and> list_ex (\<lambda>t. t_slug t = trim (toLowerCase (the slug)) \<and> t_id t \<noteq> i
                               \<and> t_deleted_at t = None) db
              then Some 409
            else if truthy subdomain \<and> subdomain \<noteq> t_subdomain existingTenant
                \<and> list_ex (\<lambda>t. t_subdomain t = Some (trim (toLowerCase (the subdomain)))
                               \<and> t_id t \<noteq> i \<and> t_deleted_at t = None) db
              then Some 409
            else None)"

section \<open>Role and permission resolver\<close>

text \<open>
  The membership record \<open>UserClinic\<close>, as the controllers build it: the assigned roles
  (\<open>role_id\<close>, \<open>is_primary\<close>; \<open>assigned_at\<close> and \<open>assigned_by\<close> are bookkeeping) and
  the permission overrides (\<open>permission_name\<close>, \<open>granted\<close>).
\<close>

record role_assignment =
  role_id :: string
  is_primary :: bool

record permission_override =
  permission_name :: string
  granted :: bool

record user_clinic =
  roles :: "role_assignment list"
  permission_overrides :: "permission_override list"



section \<open>Sample inputs\<close>

text \<open>
  A doctor of tenant \<open>t1\<close> with clinic \<open>c1\<close> selected; the same request with no tenant
  context and with an empty one; and a super-admin's request.
\<close>

definition doctor_d1 :: principal where
  "doctor_d1 = \<lparr>u_id = ''d1'', u_email = ''d1@clinic.io'', u_role = ''doctor'',
                 u_is_active = True, u_tenant_id = Some ''t1''\<rparr>"

definition req_doctor_t1 :: auth_request where
  "req_doctor_t1 = \<lparr>user = Some doctor_d1, tenant_id = Some ''t1'', clinic_id = Some ''c1'',
                     isSuperAdmin = None, query_global = None\<rparr>"

definition req_doctor_no_tenant :: auth_request where
  "req_doctor_no_tenant = req_doctor_t1\<lparr>tenant_id := None\<rparr>"

definition req_doctor_empty_tenant :: auth_request where
  "req_doctor_empty_tenant = req_doctor_t1\<lparr>tenant_id := Some ''''\<rparr>"

definition super_admin_s1 :: principal where
  "super_admin_s1 = \<lparr>u_id = ''s1'', u_email = ''root@clinicpro.io'', u_role = ''super_admin'',
                      u_is_active = True, u_tenant_id = None\<rparr>"

definition req_super_admin :: auth_request where
  "req_super_admin = \<lparr>user = Some super_admin_s1, tenant_id = None, clinic_id = Some ''c1'',
                       isSuperAdmin = Some True, query_global = None\<rparr>"

text \<open>
  A super-admin document \<open>a1\<close>, a User document that happens to have the same id, and a
  \<open>verify\<close> that knows two tokens: the one \<open>login\<close> mints for \<open>a1\<close> and the one
  clinic selection mints for the doctor \<open>d1\<close>.
\<close>

definition admin_a1 :: super_admin where
  "admin_a1 = \<lparr>sa_id = ''a1'', sa_email = ''root@clinicpro.io'', sa_password_hash = ''secret'',
                sa_is_active = True, sa_last_login = None, sa_login_attempts = 0,
                sa_locked_until = None\<rparr>"

definition user_a1 :: principal where
  "user_a1 = \<lparr>u_id = ''a1'', u_email = ''nurse@clinic.io'', u_role = ''nurse'',
               u_is_active = True, u_tenant_id = Some ''t1''\<rparr>"

definition sample_verify :: "string \<Rightarrow> jwt_verify" where
  "sample_verify tok =
     (if tok = ''sa-token'' then Decoded (superAdminTokenPayload admin_a1)
      else if tok = ''user-token''
        then Decoded (selectClinicTokenPayload doctor_d1 (Some ''t1'') ''c1'' (Some ''doctor''))
      else JsonWebTokenError)"

definition blank_request :: auth_request where
  "blank_request = \<lparr>user = None, tenant_id = None, clinic_id = None, isSuperAdmin = None,
                     query_global = None\<rparr>"

text \<open>
  The credential primitive of the samples: the password matches when it equals the
  stored hash. \<open>admin_a1\<close> after four failed attempts, and after a lock set at time 5
  has run out (two hours are 7200000 ms).
\<close>

definition sample_compare :: "string \<Rightarrow> string \<Rightarrow> bool" where
  "sample_compare candidate hash = (candidate = hash)"

definition admin_four_failures :: super_admin where
  "admin_four_failures = admin_a1\<lparr>sa_login_attempts := 4\<rparr>"

definition admin_lock_expired :: super_admin where
  "admin_lock_expired = admin_a1\<lparr>sa_login_attempts := 5, sa_locked_until := Some 7200005\<rparr>"

text \<open>A login with a wrong password at a given time: the collection it leaves.\<close>

definition failed_login :: "int \<Rightarrow> super_admin list \<Rightarrow> super_admin list" where
  "failed_login now admins =
     snd (snd (login sample_compare now admins True ''root@clinicpro.io'' ''wrong''))"

text \<open>
  A clinic with one patient \<open>p1\<close> of tenant \<open>t1\<close> and clinic \<open>c1\<close>, first with no
  appointment or prescription at all, then with an appointment of doctor \<open>d1\<close> with
  \<open>p1\<close>; and a nurse of the same tenant and clinic.
\<close>

definition patient_p1 :: patient where
  "patient_p1 = \<lparr>p_id = ''p1'', p_tenant_id = Some ''t1'', p_clinic_id = Some ''c1'',
                  p_created_at = 100\<rparr>"

definition db_no_links :: clinic_db where
  "db_no_links = \<lparr>patients = [patient_p1], appointments = [], prescriptions = []\<rparr>"

definition appointment_d1_p1 :: appointment where
  "appointment_d1_p1 = \<lparr>a_tenant_id = ''t1'', a_patient_id = ''p1'', a_doctor_id = ''d1'',
                         a_nurse_id = None\<rparr>"

definition db_linked :: clinic_db where
  "db_linked = db_no_links\<lparr>appointments := [appointment_d1_p1]\<rparr>"

definition nurse_n1 :: principal where
  "nurse_n1 = \<lparr>u_id = ''n1'', u_email = ''n1@clinic.io'', u_role = ''nurse'',
                u_is_active = True, u_tenant_id = Some ''t1''\<rparr>"

definition req_nurse_t1 :: auth_request where
  "req_nurse_t1 = req_doctor_t1\<lparr>user := Some nurse_n1\<rparr>"

text \<open>
  The tenant \<open>acme-medical\<close>, and a request to create a tenant with that slug, posted
  by the super-admin.
\<close>

definition tenant_acme :: tenant where
  "tenant_acme = \<lparr>t_id = ''x1'', t_name = ''Acme Medical'', t_slug = ''acme-medical'',
                   t_email = ''office@acme.io'', t_subdomain = None, t_status = ''active'',
                   t_created_by = Some ''s1'', t_deleted_at = None\<rparr>"

definition body_acme :: tenant_body where
  "body_acme = \<lparr>b_name = ''Acme Again'', b_slug = ''acme-medical'', b_email = ''new@acme.io'',
                 b_subdomain = None, b_status = None\<rparr>"

definition sample_email_valid :: "string \<Rightarrow> bool" where
  "sample_email_valid e = (CHR ''@'' \<in> set e)"






section \<open>Properties of the tenant scope enforcer\<close>

lemma truthy_Some [simp]: "truthy (Some t) \<longleftrightarrow> t \<noteq> []"
  by (simp add: truthy_def)

lemma truthy_None [simp]: "\<not> truthy None"
  by (simp add: truthy_def)

lemma user_role_req_doctor [simp]:
  "user_role req_doctor_t1 = Some ''doctor''"
  "user_role req_doctor_no_tenant = Some ''doctor''"
  "user_role req_doctor_empty_tenant = Some ''doctor''"
  by (simp_all add: user_role_def req_doctor_t1_def req_doctor_no_tenant_def
      req_doctor_empty_tenant_def doctor_d1_def)

lemma tenant_id_req_doctor [simp]:
  "tenant_id req_doctor_t1 = Some ''t1''"
  "tenant_id req_doctor_no_tenant = None"
  "tenant_id req_doctor_empty_tenant = Some ''''"
  by (simp_all add: req_doctor_t1_def req_doctor_no_tenant_def req_doctor_empty_tenant_def)

lemma user_role_req_super_admin [simp]: "user_role req_super_admin = Some ''super_admin''"
  by (simp add: user_role_def req_super_admin_def super_admin_s1_def)

text \<open>
  C1. The principal's tenant is the request's tenant context \<open>req.tenant_id\<close> ("current
  user's tenant ID" in \<open>AuthRequest\<close>). \<open>authenticate\<close>, the one place that writes it,
  leaves it \<open>undefined\<close> or a non-empty string, so a tenant context that is not null is a
  truthy one, which is what the guard \<open>!req.tenant_id\<close> tests. For a principal that is not
  a super-admin and has a tenant context, \<open>getTenantScopedFilter\<close> returns a filter whose
  \<open>tenant_id\<close> is that tenant id and no other, with the other keys of the extra filter
  kept; without a tenant context the call throws "Tenant context is required for this
  operation" and returns no filter.
\<close>

theorem getTenantScopedFilter_own_tenant:
  assumes "user_role req \<noteq> Some ''super_admin''"
  shows "(\<forall>t. tenant_id req = Some t \<and> truthy (tenant_id req) \<longrightarrow>
            (\<exists>f. getTenantScopedFilter req extra = Inr f
               \<and> f ''tenant_id'' = Some (JString t)
               \<and> (\<forall>t'. t' \<noteq> t \<longrightarrow> f ''tenant_id'' \<noteq> Some (JString t'))
               \<and> (\<forall>k. k \<noteq> ''tenant_id'' \<longrightarrow> f k = extra k)))
       \<and> (\<not> truthy (tenant_id req) \<longrightarrow>
            getTenantScopedFilter req extra = Inl TenantContextRequired)"
  using assms by (auto simp: getTenantScopedFilter_def)

text \<open>
  Witness for C1: the doctor of tenant \<open>t1\<close> asking with the extra filter
  \<open>{clinic_id: 'c1'}\<close> gets \<open>{clinic_id: 'c1', tenant_id: 't1'}\<close>; without a tenant
  context the same call throws.
\<close>

theorem getTenantScopedFilter_own_tenant_witness:
  "getTenantScopedFilter req_doctor_t1 [''clinic_id'' \<mapsto> JString ''c1'']
     = Inr [''clinic_id'' \<mapsto> JString ''c1'', ''tenant_id'' \<mapsto> JString ''t1'']
   \<and> getTenantScopedFilter req_doctor_no_tenant [''clinic_id'' \<mapsto> JString ''c1'']
     = Inl TenantContextRequired"
proof -
  let ?extra = "[''clinic_id'' \<mapsto> JString ''c1'']"
  have r: "user_role req_doctor_t1 \<noteq> Some ''super_admin''" by simp
  from getTenantScopedFilter_own_tenant [OF r, of ?extra]
  obtain f where f: "getTenantScopedFilter req_doctor_t1 ?extra = Inr f"
      and t: "f ''tenant_id'' = Some (JString ''t1'')"
      and k: "\<forall>k. k \<noteq> ''tenant_id'' \<longrightarrow> f k = ?extra k"
    by auto
  have "f = [''clinic_id'' \<mapsto> JString ''c1'', ''tenant_id'' \<mapsto> JString ''t1'']"
  proof
    fix x show "f x = [''clinic_id'' \<mapsto> JString ''c1'', ''tenant_id'' \<mapsto> JString ''t1''] x"
      using t k by (cases "x = ''tenant_id''") auto
  qed
  with f have first: "getTenantScopedFilter req_doctor_t1 ?extra
      = Inr [''clinic_id'' \<mapsto> JString ''c1'', ''tenant_id'' \<mapsto> JString ''t1'']"
    by simp
  have r': "user_role req_doctor_no_tenant \<noteq> Some ''super_admin''" by simp
  from getTenantScopedFilter_own_tenant [OF r', of ?extra]
  have second: "getTenantScopedFilter req_doctor_no_tenant ?extra = Inl TenantContextRequired"
    by simp
  from first second show ?thesis by simp
qed

text \<open>
  Called directly with the empty string as tenant id, which \<open>authenticate\<close> never writes,
  the guard takes the tenant context for missing.
\<close>

lemma getTenantScopedFilter_empty_tenant:
  "getTenantScopedFilter req_doctor_empty_tenant Map.empty = Inl TenantContextRequired"
  by (simp add: getTenantScopedFilter_def)

text \<open>
  C7. For a super-admin principal \<open>getTenantScopedFilter\<close> returns the extra filter as it
  was given: no \<open>tenant_id\<close> is added, whatever the request's tenant context and whatever
  \<open>req.query.global\<close> holds. The function reads no override parameter, so in particular
  no tenant filtering is applied when none is requested.
\<close>

theorem getTenantScopedFilter_super_admin:
  assumes "user_role req = Some ''super_admin''"
  shows "getTenantScopedFilter (req\<lparr>tenant_id := t, query_global := g\<rparr>) extra = Inr extra"
  using assms by (simp add: getTenantScopedFilter_def user_role_def)

theorem getTenantScopedFilter_super_admin_witness:
  "getTenantScopedFilter (req_super_admin\<lparr>tenant_id := Some ''t1'', query_global := None\<rparr>)
     [''clinic_id'' \<mapsto> JString ''c1''] = Inr [''clinic_id'' \<mapsto> JString ''c1'']
   \<and> getTenantScopedFilter (req_super_admin\<lparr>tenant_id := None, query_global := Some ''true''\<rparr>)
     [''clinic_id'' \<mapsto> JString ''c1''] = Inr [''clinic_id'' \<mapsto> JString ''c1'']"
  using getTenantScopedFilter_super_admin [OF user_role_req_super_admin]
  by simp

text \<open>
  The listing of a user's clinics is different: there a super-admin with a tenant context
  is filtered by it, and \<open>?global=true\<close> is what takes the tenant filter away.
\<close>

lemma getUserClinics_filter_super_admin:
  assumes "user req = Some u" and "u_role u = ''super_admin''" and "u_id u \<noteq> []"
    and "tenant_id req = Some t" and "t \<noteq> []"
  shows "getUserClinics_filter (req\<lparr>query_global := None\<rparr>)
           = Inr [''user_id'' \<mapsto> JString (u_id u), ''is_active'' \<mapsto> JBool True,
                  ''tenant_id'' \<mapsto> JString t]"
    and "getUserClinics_filter (req\<lparr>query_global := Some ''true''\<rparr>)
           = Inr [''user_id'' \<mapsto> JString (u_id u), ''is_active'' \<mapsto> JBool True]"
  using assms by (simp_all add: getUserClinics_filter_def)

text \<open>
  C8. \<open>canAccessTenant\<close> is true exactly when the principal is a super-admin or the
  request's tenant id is the target tenant id. Hence \<open>validateTenantAccess\<close> answers 403
  to a principal of tenant \<open>x\<close> that is not a super-admin, whatever its role, when the
  resource belongs to another tenant \<open>y\<close>.
\<close>

theorem canAccessTenant_iff:
  "(canAccessTenant req target \<longleftrightarrow>
      user_role req = Some ''super_admin'' \<or> tenant_id req = Some target)
   \<and> (user_role req \<noteq> Some ''super_admin'' \<and> tenant_id req = Some x
        \<and> getResourceTenantId req = Some y \<and> y \<noteq> x
      \<longrightarrow> validateTenantAccess getResourceTenantId req = Respond 403)"
proof -
  have iff: "canAccessTenant req target \<longleftrightarrow>
      user_role req = Some ''super_admin'' \<or> tenant_id req = Some target"
    by (simp add: canAccessTenant_def)
  have denied: "validateTenantAccess getResourceTenantId req = Respond 403"
    if other: "user_role req \<noteq> Some ''super_admin'' \<and> tenant_id req = Some x
        \<and> getResourceTenantId req = Some y \<and> y \<noteq> x"
  proof -
    from other have "\<not> canAccessTenant req y"
      by (auto simp: canAccessTenant_def)
    with other show ?thesis
      by (simp add: validateTenantAccess_def)
  qed
  from iff denied show ?thesis by blast
qed

theorem canAccessTenant_iff_witness:
  "\<not> canAccessTenant req_doctor_t1 ''t2''
   \<and> canAccessTenant req_doctor_t1 ''t1''
   \<and> canAccessTenant req_super_admin ''t2''
   \<and> validateTenantAccess (\<lambda>r. Some ''t2'') req_doctor_t1 = Respond 403"
  using canAccessTenant_iff [of req_doctor_t1 "''t2''" "''t1''" "\<lambda>r. Some ''t2''" "''t2''"]
    canAccessTenant_iff [of req_doctor_t1 "''t1''"]
    canAccessTenant_iff [of req_super_admin "''t2''"]
  by simp

text \<open>
  C10. For a request that is not a super-admin's and has a tenant context (a truthy
  \<open>req.tenant_id\<close>: the guard \<open>!req.tenant_id\<close> is what the function takes for a missing
  tenant context), \<open>addTenantToData\<close> returns the payload with \<open>tenant_id\<close> set to the
  request's tenant id, whatever \<open>tenant_id\<close> the payload carried, and every other field
  as it was.
\<close>

theorem addTenantToData_overwrites:
  assumes "user_role req \<noteq> Some ''super_admin''"
    and "tenant_id req = Some t" and "truthy (tenant_id req)"
  shows "addTenantToData req data = Inr (data(''tenant_id'' \<mapsto> JString t))
       \<and> (\<exists>d. addTenantToData req data = Inr d
              \<and> d ''tenant_id'' = Some (JString t)
              \<and> (\<forall>k. k \<noteq> ''tenant_id'' \<longrightarrow> d k = data k))"
  using assms by (simp add: addTenantToData_def)

text \<open>
  Witness for C10: the doctor of tenant \<open>t1\<close> posts a body that names the foreign tenant
  \<open>t2\<close>; the record is created under \<open>t1\<close>.
\<close>

theorem addTenantToData_overwrites_witness:
  "\<exists>d. addTenantToData req_doctor_t1
          [''first_name'' \<mapsto> JString ''Ann'', ''tenant_id'' \<mapsto> JString ''t2''] = Inr d
      \<and> d ''tenant_id'' = Some (JString ''t1'')
      \<and> d ''first_name'' = Some (JString ''Ann'')"
proof -
  have r: "user_role req_doctor_t1 \<noteq> Some ''super_admin''" by simp
  have t: "tenant_id req_doctor_t1 = Some ''t1''" by simp
  have n: "truthy (tenant_id req_doctor_t1)" by simp
  from addTenantToData_overwrites [OF r t n,
      of "[''first_name'' \<mapsto> JString ''Ann'', ''tenant_id'' \<mapsto> JString ''t2'']"]
  show ?thesis by auto
qed

section \<open>Properties of authentication\<close>

lemma find_Some_member: "find P xs = Some a \<Longrightarrow> a \<in> set xs \<and> P a"
  by (induction xs) (auto split: if_splits)

text \<open>
  The tenant context \<open>authenticate\<close> attaches is the token's \<open>tenant_id\<close> when that is
  truthy and the user's tenant otherwise. The tenant of a User document is an ObjectId,
  whose string is not empty; so the request that goes on has no tenant context or a
  truthy one, and with a tenant id that is not null the scoped filter carries it.
\<close>

lemma findUserById_member: "findUserById users i = Some u \<Longrightarrow> u \<in> set users"
  unfolding findUserById_def by (blast dest: find_Some_member)

lemma authenticate_never_empty_tenant:
  assumes "authenticate verify users authorization req0 = Next req"
    and "\<forall>u \<in> set users. u_tenant_id u \<noteq> Some []"
  shows "tenant_id req = None \<or> truthy (tenant_id req)"
  using assms
  by (auto simp: authenticate_def Let_def truthy_def
      split: if_splits jwt_verify.splits option.splits dest!: findUserById_member)

lemma getTenantScopedFilter_after_authenticate:
  assumes "authenticate verify users authorization req0 = Next req"
    and "\<forall>u \<in> set users. u_tenant_id u \<noteq> Some []"
    and "user_role req \<noteq> Some ''super_admin''"
    and "tenant_id req = Some t"
  shows "getTenantScopedFilter req extra = Inr (extra(''tenant_id'' \<mapsto> JString t))"
  using authenticate_never_empty_tenant [OF assms(1,2)] assms(3,4)
  by (simp add: getTenantScopedFilter_def)

lemma minted_user_tokens_have_no_type:
  "jwt_type (selectClinicTokenPayload u t c r) = None"
  "jwt_type (clearClinicTokenPayload req u) = None"
  by (simp_all add: selectClinicTokenPayload_def clearClinicTokenPayload_def)

text \<open>
  A token minted for a User carries no \<open>type\<close> claim, so \<open>authenticateSuperAdmin\<close>
  answers 401 to it, whatever the SuperAdmin collection holds.
\<close>

lemma authenticateSuperAdmin_rejects_user_token:
  assumes "verify (replace ''Bearer '' '''' hdr) = Decoded p" and "jwt_type p = None"
  shows "authenticateSuperAdmin verify admins now (Some hdr) req = Respond 401"
  using assms by (simp add: authenticateSuperAdmin_def Let_def)

text \<open>
  \<open>authenticate\<close> reads neither \<open>type\<close> nor \<open>role\<close> of the claims: any verified token
  whose id is the id of an active User is accepted.
\<close>

lemma authenticate_ignores_type:
  assumes "verify (replace ''Bearer '' '''' hdr) = Decoded p"
    and "replace ''Bearer '' '''' hdr \<noteq> []"
    and "findUserById users (jwt_id p) = Some u" and "u_is_active u"
  shows "\<exists>r. authenticate verify users (Some hdr) req = Next r \<and> user r = Some u"
  using assms by (simp add: authenticate_def Let_def)

lemma replace_Bearer_samples [simp]:
  "replace ''Bearer '' '''' ''Bearer sa-token'' = ''sa-token''"
  "replace ''Bearer '' '''' ''Bearer user-token'' = ''user-token''"
  by simp_all

lemma authenticateSuperAdmin_rejects_sample_user_token:
  "authenticateSuperAdmin sample_verify [admin_a1\<lparr>sa_id := ''d1''\<rparr>] 0
     (Some ''Bearer user-token'') blank_request = Respond 401"
  by (rule authenticateSuperAdmin_rejects_user_token [where p =
        "selectClinicTokenPayload doctor_d1 (Some ''t1'') ''c1'' (Some ''doctor'')"])
     (simp_all add: sample_verify_def minted_user_tokens_have_no_type)

text \<open>
  C2 at the failing input. \<open>authenticate\<close> never reads the \<open>type\<close> claim: the token that
  \<open>login\<close> minted for the super-admin \<open>a1\<close> is accepted at a User route as soon as the
  User collection holds an active document with the id \<open>a1\<close>, and the request goes on as
  that user, where the claim says 401.
\<close>

theorem authenticate_accepts_super_admin_token:
  "authenticate sample_verify [user_a1] (Some ''Bearer sa-token'') blank_request
     = Next (blank_request\<lparr>user := Some user_a1, tenant_id := Some ''t1''\<rparr>)"
  by (simp add: authenticate_def sample_verify_def superAdminTokenPayload_def admin_a1_def
      findUserById_def user_a1_def blank_request_def)

section \<open>Properties of the super-admin lock state\<close>

text \<open>
  With unique ids, the document \<open>findActiveByEmail\<close> finds is the one \<open>updateOne\<close> writes,
  and the next lookup reads what was written.
\<close>

lemma findActiveByEmail_updateOneById:
  assumes "distinct (map sa_id admins)"
    and "findActiveByEmail admins email = Some sa"
    and "sa_id (f sa) = sa_id sa"
    and "sa_email (f sa) = sa_email sa"
    and "sa_is_active (f sa) = sa_is_active sa"
  shows "findActiveByEmail (updateOneById (sa_id sa) f admins) email = Some (f sa)"
  using assms(1,2)
proof (induction admins)
  case Nil
  then show ?case by (simp add: findActiveByEmail_def)
next
  case (Cons x xs)
  show ?case
  proof (cases "sa_email x = trim (toLowerCase email) \<and> sa_is_active x")
    case True
    with Cons.prems have "sa = x" by (simp add: findActiveByEmail_def)
    with True assms(4,5) show ?thesis by (simp add: findActiveByEmail_def)
  next
    case False
    with Cons.prems have found: "findActiveByEmail xs email = Some sa"
      by (auto simp: findActiveByEmail_def)
    then have "sa \<in> set xs"
      unfolding findActiveByEmail_def by (blast dest: find_Some_member)
    with Cons.prems have "sa_id x \<noteq> sa_id sa" by force
    moreover from Cons.prems have "distinct (map sa_id xs)" by simp
    ultimately show ?thesis
      using False Cons.IH found by (auto simp: findActiveByEmail_def)
  qed
qed

lemma incrementLoginAttempts_frame:
  "sa_id (incrementLoginAttempts now this stored) = sa_id stored"
  "sa_email (incrementLoginAttempts now this stored) = sa_email stored"
  "sa_is_active (incrementLoginAttempts now this stored) = sa_is_active stored"
  by (simp_all add: incrementLoginAttempts_def updateOne_def Let_def)

lemma incrementLoginAttempts_fresh:
  assumes "\<not> (\<exists>t. sa_locked_until this = Some t \<and> t < now)"
  shows "sa_login_attempts (incrementLoginAttempts now this this) = sa_login_attempts this + 1"
  using assms
  by (cases "sa_locked_until this")
     (simp_all add: incrementLoginAttempts_def updateOne_def no_update_def Let_def)

lemma incrementLoginAttempts_locks:
  assumes "\<not> (\<exists>t. sa_locked_until this = Some t \<and> t < now)"
    and "sa_login_attempts this + 1 \<ge> 5" and "\<not> isLocked now this"
  shows "sa_locked_until (incrementLoginAttempts now this this) = Some (now + 7200000)"
  using assms
  by (cases "sa_locked_until this")
     (simp_all add: incrementLoginAttempts_def updateOne_def no_update_def Let_def)

lemma incrementLoginAttempts_expired:
  assumes "sa_locked_until this = Some t" and "t < now"
  shows "incrementLoginAttempts now this this = this\<lparr>sa_login_attempts := 1\<rparr>"
  using assms by (simp add: incrementLoginAttempts_def updateOne_def no_update_def Let_def)

lemma login_wrong_password:
  assumes "findActiveByEmail admins email = Some sa"
    and "\<not> isLocked now sa"
    and "\<not> bcrypt_compare password (sa_password_hash sa)"
  shows "login bcrypt_compare now admins True email password
           = (401, None, updateOneById (sa_id sa) (incrementLoginAttempts now sa) admins)"
  using assms by (simp add: login_def)

lemma login_locked:
  assumes "findActiveByEmail admins email = Some sa" and "isLocked now sa"
  shows "login bcrypt_compare now admins True email password = (423, None, admins)"
  using assms by (simp add: login_def)

text \<open>
  The lock policy while no expired lock is stored. A failed credential check (a login
  that finds the active, unlocked principal and whose password does not match) answers
  401 and writes \<open>incrementLoginAttempts\<close> to the stored document. That adds 1 to
  \<open>login_attempts\<close>; when the counter thereby reaches 5 (or more), \<open>locked_until\<close>
  becomes now + 2 h, and any login during those two hours is answered 423 Locked. With
  an expired lock stored, the counter is set to 1 instead.
\<close>

lemma failed_login_lock_policy:
  assumes found: "findActiveByEmail admins email = Some sa"
    and unlocked: "\<not> isLocked now sa"
    and wrong: "\<not> bcrypt_compare password (sa_password_hash sa)"
    and ids: "distinct (map sa_id admins)"
  shows "login bcrypt_compare now admins True email password
           = (401, None, updateOneById (sa_id sa) (incrementLoginAttempts now sa) admins)
       \<and> findActiveByEmail (updateOneById (sa_id sa) (incrementLoginAttempts now sa) admins) email
           = Some (incrementLoginAttempts now sa sa)
       \<and> (\<not> (\<exists>t. sa_locked_until sa = Some t \<and> t < now) \<longrightarrow>
            sa_login_attempts (incrementLoginAttempts now sa sa) = sa_login_attempts sa + 1)
       \<and> (\<not> (\<exists>t. sa_locked_until sa = Some t \<and> t < now) \<and> sa_login_attempts sa + 1 \<ge> 5 \<longrightarrow>
            sa_locked_until (incrementLoginAttempts now sa sa) = Some (now + 2 * 60 * 60 * 1000)
            \<and> (\<forall>later pw cmp. now \<le> later \<and> later < now + 2 * 60 * 60 * 1000 \<longrightarrow>
                 fst (login cmp later
                        (updateOneById (sa_id sa) (incrementLoginAttempts now sa) admins)
                        True email pw) = 423))
       \<and> ((\<exists>t. sa_locked_until sa = Some t \<and> t < now) \<longrightarrow>
            sa_login_attempts (incrementLoginAttempts now sa sa) = 1)"
proof -
  let ?sa' = "incrementLoginAttempts now sa sa"
  let ?admins' = "updateOneById (sa_id sa) (incrementLoginAttempts now sa) admins"
  have resp: "login bcrypt_compare now admins True email password = (401, None, ?admins')"
    using found unlocked wrong by (rule login_wrong_password)
  have stored: "findActiveByEmail ?admins' email = Some ?sa'"
    using ids found by (rule findActiveByEmail_updateOneById) (simp_all add: incrementLoginAttempts_frame)
  have inc: "sa_login_attempts ?sa' = sa_login_attempts sa + 1"
    if "\<not> (\<exists>t. sa_locked_until sa = Some t \<and> t < now)"
    using that by (rule incrementLoginAttempts_fresh)
  have lock: "sa_locked_until ?sa' = Some (now + 2 * 60 * 60 * 1000)
      \<and> (\<forall>later pw cmp. now \<le> later \<and> later < now + 2 * 60 * 60 * 1000 \<longrightarrow>
            fst (login cmp later ?admins' True email pw) = 423)"
    if fresh: "\<not> (\<exists>t. sa_locked_until sa = Some t \<and> t < now)" and five: "sa_login_attempts sa + 1 \<ge> 5"
  proof -
    have until: "sa_locked_until ?sa' = Some (now + 7200000)"
      using fresh five unlocked by (rule incrementLoginAttempts_locks)
    have "fst (login cmp later ?admins' True email pw) = 423"
      if "now \<le> later \<and> later < now + 2 * 60 * 60 * 1000" for later pw cmp
    proof -
      from until that have "isLocked later ?sa'" by (simp add: isLocked_def)
      with stored show ?thesis by (simp add: login_locked)
    qed
    with until show ?thesis by simp
  qed
  have expired: "sa_login_attempts ?sa' = 1" if "\<exists>t. sa_locked_until sa = Some t \<and> t < now"
    using that by (auto simp: incrementLoginAttempts_expired)
  from resp stored inc lock expired show ?thesis by blast
qed

lemma toLowerCase_sample_email [simp]:
  "toLowerCase ''Root@ClinicPro.io'' = ''root@clinicpro.io''"
  "toLowerCase ''root@clinicpro.io'' = ''root@clinicpro.io''"
  "trim ''root@clinicpro.io'' = ''root@clinicpro.io''"
  by code_simp+

lemma findActiveByEmail_samples [simp]:
  "findActiveByEmail [admin_four_failures] ''Root@ClinicPro.io'' = Some admin_four_failures"
  "findActiveByEmail [admin_lock_expired] ''root@clinicpro.io'' = Some admin_lock_expired"
  by (simp_all add: findActiveByEmail_def admin_four_failures_def admin_lock_expired_def
      admin_a1_def)

text \<open>
  On the samples: the fifth failed attempt, at time 5, brings the counter to 5 and sets
  the lock to 7200005; the sixth attempt one millisecond later is answered 423 although
  its password is right. A failed attempt at time 9000000, after that lock has run out,
  sets the counter to 1.
\<close>

lemma failed_login_lock_policy_samples:
  "login sample_compare 5 [admin_four_failures] True ''Root@ClinicPro.io'' ''wrong''
     = (401, None,
        [admin_four_failures\<lparr>sa_login_attempts := 5, sa_locked_until := Some 7200005\<rparr>])
   \<and> fst (login sample_compare 6
            [admin_four_failures\<lparr>sa_login_attempts := 5, sa_locked_until := Some 7200005\<rparr>]
            True ''Root@ClinicPro.io'' ''secret'') = 423
   \<and> login sample_compare 9000000 [admin_lock_expired] True ''root@clinicpro.io'' ''wrong''
     = (401, None, [admin_lock_expired\<lparr>sa_login_attempts := 1\<rparr>])"
proof -
  have inc: "incrementLoginAttempts 5 admin_four_failures admin_four_failures
      = admin_four_failures\<lparr>sa_login_attempts := 5, sa_locked_until := Some 7200005\<rparr>"
    by (simp add: incrementLoginAttempts_def updateOne_def no_update_def isLocked_def
        admin_four_failures_def admin_a1_def)
  have a: "\<not> isLocked 5 admin_four_failures"
    by (simp add: isLocked_def admin_four_failures_def admin_a1_def)
  have b: "\<not> sample_compare ''wrong'' (sa_password_hash admin_four_failures)"
    by (simp add: sample_compare_def admin_four_failures_def admin_a1_def)
  have c: "distinct (map sa_id [admin_four_failures])" by simp
  have fresh: "\<not> (\<exists>t. sa_locked_until admin_four_failures = Some t \<and> t < 5)"
    by (simp add: admin_four_failures_def admin_a1_def)
  have five: "sa_login_attempts admin_four_failures + 1 \<ge> 5"
    by (simp add: admin_four_failures_def)
  note p = failed_login_lock_policy [where bcrypt_compare = sample_compare
      and password = "''wrong''", OF findActiveByEmail_samples(1) a b c]
  from p have first: "login sample_compare 5 [admin_four_failures] True ''Root@ClinicPro.io'' ''wrong''
      = (401, None, [admin_four_failures\<lparr>sa_login_attempts := 5, sa_locked_until := Some 7200005\<rparr>])"
    by (simp add: inc)
  from p fresh five
  have "\<forall>later pw cmp. 5 \<le> later \<and> later < 5 + 2 * 60 * 60 * 1000 \<longrightarrow>
      fst (login cmp later
             (updateOneById (sa_id admin_four_failures)
                (incrementLoginAttempts 5 admin_four_failures) [admin_four_failures])
             True ''Root@ClinicPro.io'' pw) = 423"
    by blast
  then have "fst (login sample_compare 6
             (updateOneById (sa_id admin_four_failures)
                (incrementLoginAttempts 5 admin_four_failures) [admin_four_failures])
             True ''Root@ClinicPro.io'' ''secret'') = 423"
    by simp
  then have second: "fst (login sample_compare 6
            [admin_four_failures\<lparr>sa_login_attempts := 5, sa_locked_until := Some 7200005\<rparr>]
            True ''Root@ClinicPro.io'' ''secret'') = 423"
    by (simp add: inc)
  have a': "\<not> isLocked 9000000 admin_lock_expired"
    by (simp add: isLocked_def admin_lock_expired_def)
  have b': "\<not> sample_compare ''wrong'' (sa_password_hash admin_lock_expired)"
    by (simp add: sample_compare_def admin_lock_expired_def admin_a1_def)
  have c': "distinct (map sa_id [admin_lock_expired])" by simp
  have inc': "incrementLoginAttempts 9000000 admin_lock_expired admin_lock_expired
      = admin_lock_expired\<lparr>sa_login_attempts := 1\<rparr>"
    by (rule incrementLoginAttempts_expired [where t = 7200005])
       (simp_all add: admin_lock_expired_def)
  from failed_login_lock_policy [where bcrypt_compare = sample_compare
      and password = "''wrong''", OF findActiveByEmail_samples(2) a' b' c']
  have third: "login sample_compare 9000000 [admin_lock_expired] True ''root@clinicpro.io'' ''wrong''
      = (401, None, [admin_lock_expired\<lparr>sa_login_attempts := 1\<rparr>])"
    by (simp add: inc')
  from first second third show ?thesis by simp
qed

text \<open>
  The whole scenario on the code: five failed attempts on a fresh account at times 1 to 5,
  then a sixth attempt with the right password at time 6.
\<close>

lemma five_failures_then_locked:
  "(let fail = (\<lambda>now admins. snd (snd (login sample_compare now admins True
                                           ''root@clinicpro.io'' ''wrong'')));
        admins = fail 5 (fail 4 (fail 3 (fail 2 (fail 1 [admin_a1]))))
    in admins = [admin_a1\<lparr>sa_login_attempts := 5, sa_locked_until := Some 7200005\<rparr>]
       \<and> fst (login sample_compare 6 admins True ''root@clinicpro.io'' ''secret'') = 423)"
  by (simp add: login_def findActiveByEmail_def admin_a1_def sample_compare_def isLocked_def
      incrementLoginAttempts_def updateOne_def no_update_def Let_def)

section \<open>Successful login and the stored lock\<close>

lemma resetLoginAttempts_effect:
  "resetLoginAttempts now this stored
     = stored\<lparr>sa_login_attempts := 0, sa_last_login := Some now\<rparr>"
  by (simp add: resetLoginAttempts_def updateOne_def no_update_def Let_def)

lemma resetLoginAttempts_keeps_locked_until:
  "sa_locked_until (resetLoginAttempts now this stored) = sa_locked_until stored"
  by (simp add: resetLoginAttempts_effect)

text \<open>
  C3 at the failing input: the account whose lock (until 7200005) has run out logs in
  with the right password at time 9000000. The counter goes to 0 and \<open>last_login\<close> to
  the time of the login, but \<open>delete updates.locked_until\<close> removes a key the update
  never held, so the stored \<open>locked_until\<close> stays 7200005 where the claim says it is
  removed.
\<close>

theorem login_success_keeps_locked_until:
  "login sample_compare 9000000 [admin_lock_expired] True ''root@clinicpro.io'' ''secret''
     = (200, Some (superAdminTokenPayload admin_lock_expired),
        [admin_lock_expired\<lparr>sa_login_attempts := 0, sa_last_login := Some 9000000\<rparr>])
   \<and> sa_locked_until
        (admin_lock_expired\<lparr>sa_login_attempts := 0, sa_last_login := Some 9000000\<rparr>)
     = Some 7200005"
proof -
  have unlocked: "\<not> isLocked 9000000 admin_lock_expired"
    by (simp add: isLocked_def admin_lock_expired_def)
  have right: "sample_compare ''secret'' (sa_password_hash admin_lock_expired)"
    by (simp add: sample_compare_def admin_lock_expired_def admin_a1_def)
  have "login sample_compare 9000000 [admin_lock_expired] True ''root@clinicpro.io'' ''secret''
     = (200, Some (superAdminTokenPayload admin_lock_expired),
        [admin_lock_expired\<lparr>sa_login_attempts := 0, sa_last_login := Some 9000000\<rparr>])"
    using unlocked right by (simp add: login_def resetLoginAttempts_effect)
  moreover have "sa_locked_until
        (admin_lock_expired\<lparr>sa_login_attempts := 0, sa_last_login := Some 9000000\<rparr>)
     = Some 7200005"
    by (simp add: admin_lock_expired_def)
  ultimately show ?thesis by simp
qed

text \<open>
  The restart branch of \<open>incrementLoginAttempts\<close> has the same slip: its
  \<open>delete updates.locked_until\<close> removes nothing, the expired lock stays stored, and
  every later failed attempt takes the restart branch again.
\<close>

lemma stale_lock_never_relocks:
  assumes "sa_locked_until this = Some t" and "t < now"
  shows "sa_login_attempts (incrementLoginAttempts now this this) = 1
       \<and> sa_locked_until (incrementLoginAttempts now this this) = Some t"
  using assms by (simp add: incrementLoginAttempts_expired)

lemma failed_login_stale_lock:
  assumes "7200005 < now"
  shows "failed_login now [admin_lock_expired\<lparr>sa_login_attempts := n\<rparr>]
           = [admin_lock_expired\<lparr>sa_login_attempts := 1\<rparr>]"
proof -
  let ?sa = "admin_lock_expired\<lparr>sa_login_attempts := n\<rparr>"
  have found: "findActiveByEmail [?sa] ''root@clinicpro.io'' = Some ?sa"
    by (simp add: findActiveByEmail_def admin_lock_expired_def admin_a1_def)
  have unlocked: "\<not> isLocked now ?sa"
    using assms by (simp add: isLocked_def admin_lock_expired_def)
  have wrong: "\<not> sample_compare ''wrong'' (sa_password_hash ?sa)"
    by (simp add: sample_compare_def admin_lock_expired_def admin_a1_def)
  have "incrementLoginAttempts now ?sa ?sa = ?sa\<lparr>sa_login_attempts := 1\<rparr>"
    using assms
    by (intro incrementLoginAttempts_expired [where t = 7200005])
       (simp_all add: admin_lock_expired_def)
  then show ?thesis
    unfolding failed_login_def
      login_wrong_password [where bcrypt_compare = sample_compare and password = "''wrong''",
        OF found unlocked wrong]
    by (simp add: admin_lock_expired_def)
qed

text \<open>
  C5 at the failing input: the account whose lock (until 7200005) has run out. Five
  failed credential checks in a row, at times 9000001 to 9000005, each leave the counter
  at 1 instead of incrementing it, no new lock is set, and the sixth attempt, with the
  right password at time 9000006, is answered 200 where the claim says it is rejected as
  locked.
\<close>

theorem stale_lock_five_failures_not_locked:
  "failed_login 9000005 (failed_login 9000004 (failed_login 9000003
      (failed_login 9000002 (failed_login 9000001 [admin_lock_expired]))))
     = [admin_lock_expired\<lparr>sa_login_attempts := 1\<rparr>]
   \<and> fst (login sample_compare 9000006 [admin_lock_expired\<lparr>sa_login_attempts := 1\<rparr>] True
            ''root@clinicpro.io'' ''secret'') = 200"
proof -
  have start: "[admin_lock_expired] = [admin_lock_expired\<lparr>sa_login_attempts := 5\<rparr>]"
    by (simp add: admin_lock_expired_def)
  have chain: "failed_login 9000005 (failed_login 9000004 (failed_login 9000003
      (failed_login 9000002 (failed_login 9000001 [admin_lock_expired]))))
     = [admin_lock_expired\<lparr>sa_login_attempts := 1\<rparr>]"
    unfolding start by (simp add: failed_login_stale_lock)
  have "login sample_compare 9000006 [admin_lock_expired\<lparr>sa_login_attempts := 1\<rparr>] True
            ''root@clinicpro.io'' ''secret''
      = (200, Some (superAdminTokenPayload (admin_lock_expired\<lparr>sa_login_attempts := 1\<rparr>)),
         [admin_lock_expired\<lparr>sa_login_attempts := 0, sa_last_login := Some 9000006\<rparr>])"
    by (simp add: login_def findActiveByEmail_def resetLoginAttempts_effect isLocked_def
        sample_compare_def admin_lock_expired_def admin_a1_def)
  with chain show ?thesis by simp
qed

section \<open>Properties of the patient controller\<close>

lemma find_None_iff_no_match: "find P xs = None \<longleftrightarrow> \<not> list_ex P xs"
  by (induction xs) auto

text \<open>
  Reading one patient: a doctor with no appointment and no prescription with the patient
  is answered 403.
\<close>

lemma getPatientById_doctor_unlinked:
  assumes "user req = Some u" and "u_role u = ''doctor''"
    and "\<not> list_ex (\<lambda>a. a_patient_id a = pid \<and> a_doctor_id a = u_id u) (appointments db)"
    and "\<not> list_ex (\<lambda>r. rx_patient_id r = pid \<and> rx_doctor_id r = u_id u) (prescriptions db)"
  shows "getPatientById db req pid = (403, None)"
  using assms
  by (auto simp: getPatientById_def user_role_def Let_def list_ex_iff)

text \<open>
  With an appointment or a prescription of the request's tenant that links the doctor to
  the patient, the same request is answered 200, provided the patient is a patient of the
  request's tenant and clinic.
\<close>

lemma getPatientById_doctor_linked:
  assumes "user req = Some u" and "u_role u = ''doctor''"
    and "tenant_id req = Some t" and "t \<noteq> []" and "clinic_id req = Some c"
    and "list_ex (\<lambda>a. a_tenant_id a = t \<and> a_patient_id a = pid \<and> a_doctor_id a = u_id u)
           (appointments db)
         \<or> list_ex (\<lambda>r. rx_tenant_id r = t \<and> rx_patient_id r = pid \<and> rx_doctor_id r = u_id u)
           (prescriptions db)"
    and "list_ex (\<lambda>p. p_id p = pid \<and> p_tenant_id p = Some t \<and> p_clinic_id p = Some c)
           (patients db)"
  shows "fst (getPatientById db req pid) = 200"
proof -
  let ?f = "[''_id'' \<mapsto> JString pid, ''clinic_id'' \<mapsto> JString c, ''tenant_id'' \<mapsto> JString t]"
  have scoped: "getTenantScopedFilter req
      [''_id'' \<mapsto> JString pid, ''clinic_id'' \<mapsto> opt_string (clinic_id req)] = Inr ?f"
    using assms(1-5) by (simp add: getTenantScopedFilter_def user_role_def opt_string_def)
  have "list_ex (patient_matches ?f) (patients db)"
    using assms(7) by (auto simp: list_ex_iff patient_matches_def field_matches_def)
  then obtain p where "find (patient_matches ?f) (patients db) = Some p"
    using find_None_iff_no_match [of "patient_matches ?f" "patients db"] by (cases "find (patient_matches ?f) (patients db)") auto
  moreover have "list_ex (\<lambda>a. tenant_id req = Some (a_tenant_id a) \<and> a_patient_id a = pid
                              \<and> a_doctor_id a = u_id (the (user req))) (appointments db)
      \<or> list_ex (\<lambda>r. tenant_id req = Some (rx_tenant_id r) \<and> rx_patient_id r = pid
                              \<and> rx_doctor_id r = u_id (the (user req))) (prescriptions db)"
    using assms(1,3,6) by (auto simp: list_ex_iff)
  ultimately show ?thesis
    using assms(1,2) scoped by (auto simp: getPatientById_def user_role_def Let_def)
qed

lemma getPatientById_samples:
  "getPatientById db_no_links req_doctor_t1 ''p1'' = (403, None)"
  "getPatientById db_linked req_doctor_t1 ''p1'' = (200, Some patient_p1)"
  by (simp_all add: getPatientById_def getTenantScopedFilter_def db_no_links_def db_linked_def
      req_doctor_t1_def doctor_d1_def user_role_def appointment_d1_p1_def patient_p1_def
      patient_matches_def field_matches_def opt_string_def)

text \<open>
  C6 at the failing input. Listing patients does not restrict a doctor: the branch of
  \<open>getAllPatients\<close> for \<open>_requiresDoctorPatientFilter\<close> runs the unrestricted query
  (its restriction is commented out as temporary), so the doctor \<open>d1\<close>, who has no
  appointment and no prescription with anybody, is given the patient \<open>p1\<close>.
\<close>

theorem getAllPatients_doctor_unrestricted:
  "getAllPatients db_no_links req_doctor_t1 None None (\<lambda>p. True) = (200, [patient_p1], 1)"
  by (simp add: getAllPatients_def getTenantScopedFilter_def getRoleBasedFilter_def
      db_no_links_def req_doctor_t1_def doctor_d1_def user_role_def patient_p1_def
      patient_matches_def field_matches_def opt_string_def js_truthy_def)

text \<open>The sibling branch for a nurse does restrict: the same listing is empty.\<close>

lemma getAllPatients_nurse_restricted:
  "getAllPatients db_no_links req_nurse_t1 None None (\<lambda>p. True) = (200, [], 0)"
  by (simp add: getAllPatients_def getTenantScopedFilter_def getRoleBasedFilter_def
      db_no_links_def req_nurse_t1_def req_doctor_t1_def nurse_n1_def user_role_def
      patient_p1_def patient_matches_def field_matches_def opt_string_def js_truthy_def)

section \<open>Properties of tenant creation\<close>

text \<open>
  A slug of a tenant that is not deleted is refused with 409, and nothing is written.
\<close>

lemma createTenant_existing_slug:
  assumes "errors_isEmpty"
    and "list_ex (\<lambda>t. t_slug t = trim (toLowerCase (b_slug body)) \<and> t_deleted_at t = None) db"
  shows "createTenant email_valid new_id db req errors_isEmpty body = (409, db)"
  using assms by (simp add: createTenant_def)

lemma updateTenant_existing_slug:
  assumes "find (\<lambda>t. t_id t = i \<and> t_deleted_at t = None) db = Some existing"
    and "slug \<noteq> []" and "slug \<noteq> t_slug existing"
    and "list_ex (\<lambda>t. t_slug t = trim (toLowerCase slug) \<and> t_id t \<noteq> i
                   \<and> t_deleted_at t = None) db"
  shows "updateTenant_checks db True i (Some slug) subdomain = Some 409"
  using assms by (simp add: updateTenant_checks_def)

text \<open>
  The unique index on \<open>slug\<close> does not look at \<open>deleted_at\<close>: while any document of the
  collection, deleted or not, holds the slug, no tenant with that slug is created.
\<close>

lemma createTenant_slug_taken:
  assumes "list_ex (\<lambda>t. t_slug t = trim (toLowerCase (b_slug body))) db"
  shows "fst (createTenant email_valid new_id db req errors_isEmpty body) \<noteq> 201"
  using assms
  by (auto simp: createTenant_def save_def Let_def split: sum.splits save_error.splits)

lemma acme_slug [simp]:
  "toLowerCase ''acme-medical'' = ''acme-medical''"
  "trim ''acme-medical'' = ''acme-medical''"
  "slug_valid ''acme-medical''"
  by code_simp+

lemma acme_fields [simp]:
  "trim ''Acme Again'' = ''Acme Again''"
  "toLowerCase ''new@acme.io'' = ''new@acme.io''"
  "trim ''new@acme.io'' = ''new@acme.io''"
  "sample_email_valid ''new@acme.io''"
  by code_simp+

text \<open>
  C9 at the failing input. While \<open>acme-medical\<close> is not deleted, creating a tenant with
  that slug is answered 409. After \<open>deleteTenant\<close> has soft-deleted it, the controller's
  check and the \<open>pre('save')\<close> hook let the request through, the insert runs into the
  unique index on \<open>slug\<close>, and the request is answered 500 with nothing created, where
  the claim says it succeeds.
\<close>

theorem createTenant_after_soft_delete:
  "createTenant sample_email_valid ''x2'' [tenant_acme] req_super_admin True body_acme
     = (409, [tenant_acme])
   \<and> deleteTenant 50 [tenant_acme] ''x1'' = (200, [tenant_acme\<lparr>t_deleted_at := Some 50\<rparr>])
   \<and> createTenant sample_email_valid ''x2'' [tenant_acme\<lparr>t_deleted_at := Some 50\<rparr>]
        req_super_admin True body_acme
     = (500, [tenant_acme\<lparr>t_deleted_at := Some 50\<rparr>])"
proof -
  have first: "createTenant sample_email_valid ''x2'' [tenant_acme] req_super_admin True body_acme
      = (409, [tenant_acme])"
    by (rule createTenant_existing_slug) (simp_all add: tenant_acme_def body_acme_def)
  have second: "deleteTenant 50 [tenant_acme] ''x1''
      = (200, [tenant_acme\<lparr>t_deleted_at := Some 50\<rparr>])"
    by (simp add: deleteTenant_def tenant_acme_def)
  have valid: "validateTenant sample_email_valid
      \<lparr>t_id = ''x2'', t_name = ''Acme Again'', t_slug = ''acme-medical'',
       t_email = ''new@acme.io'', t_subdomain = None, t_status = ''pending'',
       t_created_by = Some ''s1'', t_deleted_at = None\<rparr>"
    by (simp add: validateTenant_def subdomain_valid_def)
  have third: "createTenant sample_email_valid ''x2'' [tenant_acme\<lparr>t_deleted_at := Some 50\<rparr>]
        req_super_admin True body_acme
      = (500, [tenant_acme\<lparr>t_deleted_at := Some 50\<rparr>])"
    using valid
    by (simp add: createTenant_def save_def tenant_acme_def body_acme_def req_super_admin_def
        super_admin_s1_def)
  from first second third show ?thesis by simp
qed

section \<open>Properties of the effective permissions\<close>









end
